theory Spec2Isabelle
  imports Complex_Main
begin

section \<open>Embedding generation module: data model\<close>

text \<open>
  The module \<^verbatim>\<open>generate_embeddings.py\<close> is embedded function by function.
  Python values that occur in the module are the values that the \<^verbatim>\<open>json\<close> library
  reads and writes, so one datatype serves for both: \<open>JNull\<close> is Python's
  \<^verbatim>\<open>None\<close>, \<open>JArr\<close> a list, \<open>JObj\<close> a dict with string keys, kept as an association
  list in insertion order (keys of a dict are distinct; lookup takes the first match).
  \<open>JTuple\<close> is a Python tuple: a value that \<^verbatim>\<open>json.dump\<close> accepts and writes as an
  array, and that \<^verbatim>\<open>json.load\<close> never returns.

  Python floats are modelled as real numbers: arithmetic is exact, there is no rounding,
  no overflow, no infinity and no NaN. Strings are lists of characters.
\<close>

datatype json =
    JNull
  | JBool bool
  | JInt int
  | JFloat real
  | JStr string
  | JArr "json list"
  | JTuple "json list"
  | JObj "(string \<times> json) list"

text \<open>
  Every exception the module can raise is a value. \<open>APIError code body\<close> is the
  \<^verbatim>\<open>Exception('Embedding API error: HTTP <code> - <body>')\<close> of \<^verbatim>\<open>generate_embedding\<close>;
  \<open>GenerateFailed e\<close> is its \<^verbatim>\<open>Exception('Failed to generate embedding: <str(e)>')\<close>, kept
  with the exception it wraps instead of the rendered message; \<open>UnexpectedFormat d\<close> is
  \<^verbatim>\<open>Exception('Unexpected API response format: <d>')\<close>.
\<close>

datatype error =
    ValueError string
  | FileNotFoundError string
  | TypeError
  | AttributeError
  | KeyError string
  | ZeroDivisionError
  | JSONDecodeError
  | URLError string
  | UnexpectedFormat json
  | APIError nat string
  | GenerateFailed error

section \<open>Cosine similarity\<close>

text \<open>
  \<^verbatim>\<open>sum(a * b for a, b in zip(embedding1, embedding2))\<close> and
  \<^verbatim>\<open>sum(a * a for a in embedding1) ** 0.5\<close>. The argument of \<^verbatim>\<open>** 0.5\<close> is a sum of
  squares, so the power is the real square root.
\<close>

definition dot_product :: "real list \<Rightarrow> real list \<Rightarrow> real" where
  "dot_product embedding1 embedding2 =
     sum_list (map (\<lambda>(a, b). a * b) (zip embedding1 embedding2))"

definition magnitude :: "real list \<Rightarrow> real" where
  "magnitude embedding = sqrt (sum_list (map (\<lambda>a. a * a) embedding))"

text \<open>Python's float division raises \<^verbatim>\<open>ZeroDivisionError\<close> on a zero divisor.\<close>

definition py_truediv :: "real \<Rightarrow> real \<Rightarrow> error + real" where
  "py_truediv x y = (if y = 0 then Inl ZeroDivisionError else Inr (x / y))"

definition cosine_similarity :: "real list \<Rightarrow> real list \<Rightarrow> error + real" where
  "cosine_similarity embedding1 embedding2 =
     (if length embedding1 \<noteq> length embedding2
      then Inl (ValueError ''Embeddings must have same dimension'')
      else
        let magnitude1 = magnitude embedding1;
            magnitude2 = magnitude embedding2
        in if magnitude1 = 0 \<or> magnitude2 = 0
           then Inr 0
           else py_truediv (dot_product embedding1 embedding2) (magnitude1 * magnitude2))"

section \<open>Python operations on values\<close>

text \<open>\<^verbatim>\<open>needle in haystack\<close> on two strings is the substring test.\<close>

fun starts_with :: "string \<Rightarrow> string \<Rightarrow> bool" where
  "starts_with [] s = True"
| "starts_with (p # ps) [] = False"
| "starts_with (p # ps) (c # cs) = (p = c \<and> starts_with ps cs)"

fun str_contains :: "string \<Rightarrow> string \<Rightarrow> bool" where
  "str_contains p [] = (p = [])"
| "str_contains p (c # cs) = (starts_with p (c # cs) \<or> str_contains p cs)"

text \<open>
  \<^verbatim>\<open>key in x\<close> for a string \<open>key\<close>: key membership on a dict, element membership on a
  list or a tuple, substring on a string, \<^verbatim>\<open>TypeError\<close> on every other value.
\<close>

fun py_contains :: "string \<Rightarrow> json \<Rightarrow> error + bool" where
  "py_contains key (JObj kvs) = Inr (key \<in> set (map fst kvs))"
| "py_contains key (JArr xs) = Inr (JStr key \<in> set xs)"
| "py_contains key (JTuple xs) = Inr (JStr key \<in> set xs)"
| "py_contains key (JStr s) = Inr (str_contains key s)"
| "py_contains key _ = Inl TypeError"

text \<open>
  \<^verbatim>\<open>x[key]\<close> for a string \<open>key\<close>: lookup on a dict (\<^verbatim>\<open>KeyError\<close> when absent),
  \<^verbatim>\<open>TypeError\<close> on every other value (lists, tuples and strings take integer
  indices).
\<close>

fun py_getitem :: "json \<Rightarrow> string \<Rightarrow> error + json" where
  "py_getitem (JObj kvs) key =
     (case map_of kvs key of None \<Rightarrow> Inl (KeyError key) | Some v \<Rightarrow> Inr v)"
| "py_getitem _ key = Inl TypeError"

text \<open>\<^verbatim>\<open>x.get(key, dflt)\<close>: only a dict has the method.\<close>

fun dict_get :: "json \<Rightarrow> string \<Rightarrow> json \<Rightarrow> error + json" where
  "dict_get (JObj kvs) key dflt =
     Inr (case map_of kvs key of None \<Rightarrow> dflt | Some v \<Rightarrow> v)"
| "dict_get _ key dflt = Inl AttributeError"

text \<open>\<^verbatim>\<open>len(x)\<close>: defined on lists, tuples, strings and dicts.\<close>

fun py_len :: "json \<Rightarrow> error + nat" where
  "py_len (JArr xs) = Inr (length xs)"
| "py_len (JTuple xs) = Inr (length xs)"
| "py_len (JStr s) = Inr (length s)"
| "py_len (JObj kvs) = Inr (length kvs)"
| "py_len _ = Inl TypeError"

text \<open>Truth value of a Python value, as \<^verbatim>\<open>x or y\<close> tests it.\<close>

fun py_truthy :: "json \<Rightarrow> bool" where
  "py_truthy JNull = False"
| "py_truthy (JBool b) = b"
| "py_truthy (JInt i) = (i \<noteq> 0)"
| "py_truthy (JFloat r) = (r \<noteq> 0)"
| "py_truthy (JStr s) = (s \<noteq> [])"
| "py_truthy (JArr xs) = (xs \<noteq> [])"
| "py_truthy (JTuple xs) = (xs \<noteq> [])"
| "py_truthy (JObj kvs) = (kvs \<noteq> [])"

definition py_or :: "json \<Rightarrow> json \<Rightarrow> json" where
  "py_or x y = (if py_truthy x then x else y)"

text \<open>
  What the \<^verbatim>\<open>json\<close> library does to a value on its way through a file. \<^verbatim>\<open>json.dump\<close>
  writes a list and a tuple alike as a JSON array, and \<^verbatim>\<open>json.load\<close> reads an array
  as a list; everything else comes back as it went in. \<open>as_loaded v\<close> is the value that
  \<^verbatim>\<open>json.load\<close> returns from the text that \<^verbatim>\<open>json.dump\<close> wrote for \<open>v\<close>, and
  \<open>json_native v\<close> says that no tuple occurs anywhere in \<open>v\<close>.
\<close>

fun as_loaded :: "json \<Rightarrow> json" where
  "as_loaded (JArr xs) = JArr (map as_loaded xs)"
| "as_loaded (JTuple xs) = JArr (map as_loaded xs)"
| "as_loaded (JObj kvs) = JObj (map (\<lambda>(k, v). (k, as_loaded v)) kvs)"
| "as_loaded v = v"


text \<open>\<^verbatim>\<open>str(n)\<close> for a non-negative integer.\<close>

fun str_nat :: "nat \<Rightarrow> string" where
  "str_nat n =
     (if n < 10 then [''0123456789'' ! n]
      else str_nat (n div 10) @ [''0123456789'' ! (n mod 10)])"

section \<open>Configuration, outside world and state\<close>

text \<open>
  The two module-level constants are read from the process environment when the module
  is imported: \<^verbatim>\<open>os.environ.get('GEMINI_API_KEY')\<close> and
  \<^verbatim>\<open>os.environ.get('EMBEDDING_MODEL', 'models/text-embedding-004')\<close>.
\<close>

record config =
  GEMINI_API_KEY :: "string option"
  EMBEDDING_MODEL :: string

definition module_config :: "(string \<rightharpoonup> string) \<Rightarrow> config" where
  "module_config environ =
     \<lparr> GEMINI_API_KEY = environ ''GEMINI_API_KEY'',
       EMBEDDING_MODEL =
         (case environ ''EMBEDDING_MODEL'' of
            None \<Rightarrow> ''models/text-embedding-004''
          | Some m \<Rightarrow> m) \<rparr>"

text \<open>
  An HTTP request as \<^verbatim>\<open>urllib.request.Request\<close> builds it; \<open>data\<close> is the document
  whose serialisation is the request body.
\<close>

record request =
  url :: string
  data :: json
  headers :: "(string \<times> string) list"
  http_method :: string

text \<open>
  What \<^verbatim>\<open>urlopen\<close> followed by reading and parsing the body does: it raises
  \<^verbatim>\<open>HTTPError\<close> with a status code and a body text, it raises another exception
  (\<^verbatim>\<open>URLError\<close>: DNS, time-out, reset connection), or it yields a body, which
  \<^verbatim>\<open>json.loads\<close> parses (\<open>Some\<close>) or rejects (\<open>None\<close>).
\<close>

datatype http_outcome =
    HTTPError nat string
  | NetworkFailure string
  | Response "json option"

text \<open>
  A regular file is its text together with what \<^verbatim>\<open>json.load\<close> makes of that text
  (\<open>None\<close>: the text is not valid JSON). The \<^verbatim>\<open>json\<close> library is not part of the
  module, and how it lays a text out and scans it again is not modelled: a file written
  by \<^verbatim>\<open>json.dump\<close> for a value \<open>v\<close> records \<open>as_loaded v\<close> as what loading it gives.
\<close>

record regular_file =
  content :: string
  parsed :: "json option"

text \<open>
  The state the module reads and changes: a flat store of regular files keyed by the
  path as written (directories, permissions and I/O faults are outside the model, and
  \<^verbatim>\<open>mkdir(parents=True, exist_ok=True)\<close> changes nothing in a flat store), the log of
  network requests issued so far, and the lines printed to standard error.
\<close>

record world =
  files :: "string \<rightharpoonup> regular_file"
  requests :: "request list"
  stderr :: "string list"

text \<open>
  What the module calls but does not define: the provider behind \<^verbatim>\<open>urlopen\<close>, the
  text \<^verbatim>\<open>json.dump(_, indent=2)\<close> writes for a document, and \<^verbatim>\<open>str(Path(p))\<close>.
\<close>

record externals =
  urlopen :: "request \<Rightarrow> http_outcome"
  json_dumps :: "json \<Rightarrow> string"
  path_str :: "string \<Rightarrow> string"

definition print_stderr :: "string \<Rightarrow> world \<Rightarrow> world" where
  "print_stderr line w = w\<lparr>stderr := stderr w @ [line]\<rparr>"

section \<open>The embedding client\<close>

text \<open>
  The request of \<^verbatim>\<open>generate_embedding\<close>: the URL carries the model and the key, the
  body the model, the text in a single content part, and the task type.
\<close>

definition api_request :: "config \<Rightarrow> string \<Rightarrow> string \<Rightarrow> string \<Rightarrow> request" where
  "api_request cfg key txt task_type =
     \<lparr> url = ''https://generativelanguage.googleapis.com/v1beta/'' @ EMBEDDING_MODEL cfg
               @ '':embedContent?key='' @ key,
       data = JObj [(''model'', JStr (EMBEDDING_MODEL cfg)),
                    (''content'', JObj [(''parts'', JArr [JObj [(''text'', JStr txt)]])]),
                    (''taskType'', JStr task_type)],
       headers = [(''Content-Type'', ''application/json'')],
       http_method = ''POST'' \<rparr>"

text \<open>
  \<^verbatim>\<open>if 'embedding' in data and 'values' in data['embedding']:\<close>
  \<^verbatim>\<open>    return data['embedding']['values']\<close>
  \<^verbatim>\<open>else: raise Exception(f'Unexpected API response format: {data}')\<close>
\<close>

definition response_values :: "json \<Rightarrow> error + json" where
  "response_values response =
     (case py_contains ''embedding'' response of
        Inl e \<Rightarrow> Inl e
      | Inr has_embedding \<Rightarrow>
          if \<not> has_embedding then Inl (UnexpectedFormat response)
          else
            (case py_getitem response ''embedding'' of
               Inl e \<Rightarrow> Inl e
             | Inr inner \<Rightarrow>
                 (case py_contains ''values'' inner of
                    Inl e \<Rightarrow> Inl e
                  | Inr has_values \<Rightarrow>
                      if \<not> has_values then Inl (UnexpectedFormat response)
                      else py_getitem inner ''values'')))"

text \<open>
  \<^verbatim>\<open>generate_embedding(text, task_type)\<close>. The key check comes first; \<^verbatim>\<open>not KEY\<close> holds
  for \<^verbatim>\<open>None\<close> and for the empty string. The call of \<^verbatim>\<open>urlopen\<close> is logged in
  \<open>requests\<close>. \<^verbatim>\<open>HTTPError\<close> has its own handler; every other exception raised inside
  the \<^verbatim>\<open>try\<close> block, the module's own \<^verbatim>\<open>Unexpected API response format\<close> included, is
  caught by \<^verbatim>\<open>except Exception\<close> and wrapped.
\<close>

definition generate_embedding ::
  "externals \<Rightarrow> config \<Rightarrow> string \<Rightarrow> string \<Rightarrow> world \<Rightarrow> (error + json) \<times> world" where
  "generate_embedding ext cfg txt task_type w =
     (case GEMINI_API_KEY cfg of
        None \<Rightarrow> (Inl (ValueError ''GEMINI_API_KEY environment variable not set''), w)
      | Some key \<Rightarrow>
          if key = []
          then (Inl (ValueError ''GEMINI_API_KEY environment variable not set''), w)
          else
            let req = api_request cfg key txt task_type;
                w' = w\<lparr>requests := requests w @ [req]\<rparr>
            in (case urlopen ext req of
                  HTTPError code error_text \<Rightarrow> (Inl (APIError code error_text), w')
                | NetworkFailure reason \<Rightarrow> (Inl (GenerateFailed (URLError reason)), w')
                | Response None \<Rightarrow> (Inl (GenerateFailed JSONDecodeError), w')
                | Response (Some response) \<Rightarrow>
                    (case response_values response of
                       Inl e \<Rightarrow> (Inl (GenerateFailed e), w')
                     | Inr values \<Rightarrow> (Inr values, w'))))"

section \<open>The embedding store\<close>

text \<open>
  \<^verbatim>\<open>save_embedding(embedding, output_path, metadata)\<close>. The dict literal is evaluated in
  source order, so \<^verbatim>\<open>len(embedding)\<close> can raise before anything is written. An omitted
  \<open>metadata\<close> is \<open>JNull\<close>.
\<close>

definition output_data :: "config \<Rightarrow> json \<Rightarrow> nat \<Rightarrow> json \<Rightarrow> json" where
  "output_data cfg embedding n metadata =
     JObj [(''embedding'', embedding),
           (''dimension'', JInt (int n)),
           (''model'', JStr (EMBEDDING_MODEL cfg)),
           (''metadata'', py_or metadata (JObj []))]"

definition save_embedding ::
  "externals \<Rightarrow> config \<Rightarrow> json \<Rightarrow> string \<Rightarrow> json \<Rightarrow> world \<Rightarrow> (error + unit) \<times> world" where
  "save_embedding ext cfg embedding output_path metadata w =
     (case py_len embedding of
        Inl e \<Rightarrow> (Inl e, w)
      | Inr n \<Rightarrow>
          let doc = output_data cfg embedding n metadata
          in (Inr (),
              w\<lparr>files := (files w)(output_path \<mapsto>
                   \<lparr>content = json_dumps ext doc, parsed = Some (as_loaded doc)\<rparr>)\<rparr>))"

text \<open>\<^verbatim>\<open>load_embedding(input_path)\<close> reads the state and does not change it.\<close>

definition load_embedding :: "string \<Rightarrow> world \<Rightarrow> error + (json \<times> json)" where
  "load_embedding input_path w =
     (case files w input_path of
        None \<Rightarrow> Inl (FileNotFoundError input_path)
      | Some f \<Rightarrow>
          (case parsed f of
             None \<Rightarrow> Inl JSONDecodeError
           | Some doc \<Rightarrow>
               (case dict_get doc ''embedding'' (JArr []) of
                  Inl e \<Rightarrow> Inl e
                | Inr embedding \<Rightarrow>
                    (case dict_get doc ''metadata'' (JObj []) of
                       Inl e \<Rightarrow> Inl e
                     | Inr metadata \<Rightarrow> Inr (embedding, metadata)))))"

section \<open>The file-to-file pipeline\<close>

text \<open>
  \<^verbatim>\<open>embed_file(input_path, output_path, task_type)\<close>: existence check, read, progress
  line, \<^verbatim>\<open>generate_embedding\<close>, metadata, \<^verbatim>\<open>save_embedding\<close>, two more progress lines.
\<close>

definition file_metadata :: "externals \<Rightarrow> string \<Rightarrow> string \<Rightarrow> json" where
  "file_metadata ext input_path txt =
     JObj [(''source_file'', JStr (path_str ext input_path)),
           (''text_length'', JInt (int (length txt))),
           (''text_preview'',
              JStr (take 200 txt @ (if length txt > 200 then ''...'' else [])))]"

definition embed_file ::
  "externals \<Rightarrow> config \<Rightarrow> string \<Rightarrow> string \<Rightarrow> string \<Rightarrow> world \<Rightarrow> (error + unit) \<times> world" where
  "embed_file ext cfg input_path output_path task_type w =
     (case files w input_path of
        None \<Rightarrow> (Inl (FileNotFoundError (''Input file not found: '' @ input_path)), w)
      | Some f \<Rightarrow>
          let txt = content f;
              w1 = print_stderr (''Generating embedding for '' @ input_path @ ''...'') w
          in (case generate_embedding ext cfg txt task_type w1 of
                (Inl e, w2) \<Rightarrow> (Inl e, w2)
              | (Inr embedding, w2) \<Rightarrow>
                  (case save_embedding ext cfg embedding output_path
                          (file_metadata ext input_path txt) w2 of
                     (Inl e, w3) \<Rightarrow> (Inl e, w3)
                   | (Inr u, w3) \<Rightarrow>
                       let w4 = print_stderr (''Saved embedding to '' @ output_path) w3
                       in (case py_len embedding of
                             Inl e \<Rightarrow> (Inl e, w4)
                           | Inr n \<Rightarrow>
                               (Inr (),
                                print_stderr (''Embedding dimension: '' @ str_nat n) w4)))))"

section \<open>Concrete inputs\<close>

text \<open>
  A provider stub that answers every request with the three-component embedding
  \<open>[0.1, 0.2, 0.3]\<close> (its \<open>json_dumps\<close> is a placeholder text), an empty state, two
  process environments, a state with one file whose text is the JSON document \<^verbatim>\<open>[]\<close>,
  and a state with one file holding an object that has no \<^verbatim>\<open>metadata\<close> key.
\<close>

definition stub_externals :: externals where
  "stub_externals =
     \<lparr> urlopen = (\<lambda>req. Response (Some (JObj [(''embedding'',
                   JObj [(''values'', JArr [JFloat (1 / 10), JFloat (2 / 10), JFloat (3 / 10)])])]))),
       json_dumps = (\<lambda>doc. ''<json>''),
       path_str = (\<lambda>p. p) \<rparr>"

definition empty_world :: world where
  "empty_world = \<lparr> files = Map.empty, requests = [], stderr = [] \<rparr>"

definition environ_gemini_key_only :: "string \<rightharpoonup> string" where
  "environ_gemini_key_only = [''GEMINI_API_KEY'' \<mapsto> ''secret'']"

definition environ_api_key_only :: "string \<rightharpoonup> string" where
  "environ_api_key_only = [''API_KEY'' \<mapsto> ''secret'']"

definition array_document_world :: world where
  "array_document_world =
     \<lparr> files = [''doc.json'' \<mapsto> \<lparr>content = ''[]'', parsed = Some (JArr [])\<rparr>],
       requests = [], stderr = [] \<rparr>"

definition scenario_world :: world where
  "scenario_world =
     \<lparr> files = [''in.txt'' \<mapsto> \<lparr>content = ''hello world'', parsed = None\<rparr>],
       requests = [], stderr = [] \<rparr>"

definition object_document_file :: regular_file where
  \<open>object_document_file =
     \<lparr> content = ''{"embedding": [1.0]}'',
       parsed = Some (JObj [(''embedding'', JArr [JFloat 1])]) \<rparr>\<close>

definition object_document_world :: world where
  "object_document_world =
     \<lparr> files = [''emb.json'' \<mapsto> object_document_file], requests = [], stderr = [] \<rparr>"

section \<open>Facts about sums of products\<close>

lemma sum_squares_nonneg: "0 \<le> sum_list (map (\<lambda>a. a * a) (xs :: real list))"
  by (induction xs) simp_all

lemma magnitude_nonneg: "0 \<le> magnitude xs"
  by (simp add: magnitude_def sum_squares_nonneg)

lemma magnitude_square: "magnitude xs * magnitude xs = sum_list (map (\<lambda>a. a * a) xs)"
  by (simp add: magnitude_def sum_squares_nonneg)

lemma magnitude_zero_iff: "magnitude xs = 0 \<longleftrightarrow> (\<forall>a\<in>set xs. a = 0)"
proof (induction xs)
  case Nil
  then show ?case by (simp add: magnitude_def)
next
  case (Cons x xs)
  have "sum_list (map (\<lambda>a. a * a) (x # xs)) = 0
        \<longleftrightarrow> x = 0 \<and> sum_list (map (\<lambda>a. a * a) xs) = 0"
    using sum_squares_nonneg[of xs] by (auto simp: add_nonneg_eq_0_iff)
  with Cons show ?case by (simp add: magnitude_def)
qed

lemma dot_product_commute: "dot_product xs ys = dot_product ys xs"
  unfolding dot_product_def
proof (induction xs arbitrary: ys)
  case Nil
  then show ?case by simp
next
  case (Cons x xs)
  then show ?case by (cases ys) (simp_all add: mult.commute)
qed

lemma dot_product_self: "dot_product xs xs = sum_list (map (\<lambda>a. a * a) xs)"
  by (induction xs) (simp_all add: dot_product_def)

text \<open>
  One step of the Cauchy-Schwarz induction: extending both vectors by one component
  keeps the squared dot product below the product of the sums of squares.
\<close>

lemma cauchy_schwarz_step:
  fixes d p q a b :: real
  assumes d: "d\<^sup>2 \<le> p * q" and p: "0 \<le> p" and q: "0 \<le> q"
  shows "(d + a * b)\<^sup>2 \<le> (p + a * a) * (q + b * b)"
proof -
  have "(d * (a * b))\<^sup>2 = d\<^sup>2 * (a * b)\<^sup>2"
    by (simp add: power_mult_distrib)
  also have "\<dots> \<le> (p * q) * (a * b)\<^sup>2"
    by (rule mult_right_mono[OF d]) simp
  also have "\<dots> = (p * b\<^sup>2) * (q * a\<^sup>2)"
    by (simp add: power_mult_distrib algebra_simps)
  also have "\<dots> \<le> ((p * b\<^sup>2 + q * a\<^sup>2) / 2)\<^sup>2"
  proof -
    have "0 \<le> (p * b\<^sup>2 - q * a\<^sup>2)\<^sup>2" by simp
    then show ?thesis by (simp add: power2_eq_square field_simps)
  qed
  finally have sq: "(d * (a * b))\<^sup>2 \<le> ((p * b\<^sup>2 + q * a\<^sup>2) / 2)\<^sup>2" .
  have nn: "0 \<le> (p * b\<^sup>2 + q * a\<^sup>2) / 2"
    using p q by simp
  have "d * (a * b) \<le> (p * b\<^sup>2 + q * a\<^sup>2) / 2"
    using power2_le_imp_le[OF sq nn] .
  then have "2 * d * (a * b) \<le> p * b\<^sup>2 + q * a\<^sup>2" by simp
  moreover have "(d + a * b)\<^sup>2 = d\<^sup>2 + 2 * d * (a * b) + (a * b)\<^sup>2"
    by (simp add: power2_sum)
  moreover have "(p + a * a) * (q + b * b) = p * q + (p * b\<^sup>2 + q * a\<^sup>2) + (a * b)\<^sup>2"
    by (simp add: power2_eq_square algebra_simps)
  ultimately show ?thesis using d by linarith
qed

lemma cauchy_schwarz_list:
  "length xs = length ys \<Longrightarrow>
   (dot_product xs ys)\<^sup>2 \<le> sum_list (map (\<lambda>a. a * a) xs) * sum_list (map (\<lambda>a. a * a) ys)"
proof (induction xs ys rule: list_induct2)
  case Nil
  then show ?case by (simp add: dot_product_def)
next
  case (Cons x xs y ys)
  have "(dot_product xs ys + x * y)\<^sup>2
        \<le> (sum_list (map (\<lambda>a. a * a) xs) + x * x) * (sum_list (map (\<lambda>a. a * a) ys) + y * y)"
    by (rule cauchy_schwarz_step[OF Cons.IH sum_squares_nonneg sum_squares_nonneg])
  then show ?case by (simp add: dot_product_def add.commute)
qed

lemma abs_dot_le_magnitudes:
  assumes "length xs = length ys"
  shows "\<bar>dot_product xs ys\<bar> \<le> magnitude xs * magnitude ys"
proof -
  have "\<bar>dot_product xs ys\<bar> = sqrt ((dot_product xs ys)\<^sup>2)" by simp
  also have "\<dots> \<le> sqrt (sum_list (map (\<lambda>a. a * a) xs) * sum_list (map (\<lambda>a. a * a) ys))"
    using cauchy_schwarz_list[OF assms] by (simp only: real_sqrt_le_iff)
  also have "\<dots> = magnitude xs * magnitude ys"
    by (simp add: magnitude_def real_sqrt_mult)
  finally show ?thesis .
qed

text \<open>
  On vectors of equal length with non-zero magnitudes the function returns the
  quotient: the guarded division never sees a zero divisor.
\<close>

lemma cosine_similarity_quotient:
  assumes "length A = length B" and "magnitude A \<noteq> 0" and "magnitude B \<noteq> 0"
  shows "cosine_similarity A B = Inr (dot_product A B / (magnitude A * magnitude B))"
  using assms by (simp add: cosine_similarity_def py_truediv_def)

section \<open>Facts about values on their way through a file\<close>



section \<open>The model at work\<close>

text \<open>
  The pipeline on a file holding \<^verbatim>\<open>hello world\<close>, with the provider stub: it succeeds,
  issues one request, prints three lines, and the saved file loads back as the stub's
  vector with the metadata built from the input.
\<close>

lemma embed_file_scenario:
  "fst (embed_file stub_externals (module_config environ_gemini_key_only)
          ''in.txt'' ''out.json'' ''RETRIEVAL_DOCUMENT'' scenario_world) = Inr ()"
  "load_embedding ''out.json''
     (snd (embed_file stub_externals (module_config environ_gemini_key_only)
             ''in.txt'' ''out.json'' ''RETRIEVAL_DOCUMENT'' scenario_world))
   = Inr (JArr [JFloat (1 / 10), JFloat (2 / 10), JFloat (3 / 10)],
          JObj [(''source_file'', JStr ''in.txt''),
                (''text_length'', JInt 11),
                (''text_preview'', JStr ''hello world'')])"
  "length (requests
     (snd (embed_file stub_externals (module_config environ_gemini_key_only)
             ''in.txt'' ''out.json'' ''RETRIEVAL_DOCUMENT'' scenario_world))) = 1"
  "stderr
     (snd (embed_file stub_externals (module_config environ_gemini_key_only)
             ''in.txt'' ''out.json'' ''RETRIEVAL_DOCUMENT'' scenario_world))
   = [''Generating embedding for in.txt...'',
      ''Saved embedding to out.json'',
      ''Embedding dimension: 3'']"
  by (simp_all add: embed_file_def scenario_world_def stub_externals_def module_config_def
      environ_gemini_key_only_def generate_embedding_def api_request_def response_values_def
      save_embedding_def output_data_def file_metadata_def load_embedding_def py_or_def
      print_stderr_def Let_def)

section \<open>Properties of the embedding store\<close>




text \<open>
  Claim C10. Whatever vector and metadata are passed to \<^verbatim>\<open>save_embedding\<close>, the document
  found at the path afterwards is an object whose \<^verbatim>\<open>embedding\<close> field is the array of
  the vector's components and whose \<^verbatim>\<open>dimension\<close> field is the length of that array,
  which is the length of the vector passed.
\<close>

theorem saved_dimension_is_length:
  "\<exists>f kvs. files (snd (save_embedding ext cfg (JArr xs) path metadata w)) path = Some f
      \<and> parsed f = Some (JObj kvs)
      \<and> map_of kvs ''embedding'' = Some (JArr (map as_loaded xs))
      \<and> map_of kvs ''dimension'' = Some (JInt (int (length (map as_loaded xs))))
      \<and> length (map as_loaded xs) = length xs"
  by (simp add: save_embedding_def output_data_def Let_def)

text \<open>
  Claim C9, as amended. When the file at a path holds a JSON object, \<^verbatim>\<open>load_embedding\<close>
  returns a pair and does not fail: its first component is the value under
  \<^verbatim>\<open>embedding\<close>, or the empty list when the object has no such key, and its second
  component is the value under \<^verbatim>\<open>metadata\<close>, or the empty mapping when the object has
  no such key.
\<close>

theorem load_object_lenient:
  assumes "files w path = Some f" and "parsed f = Some (JObj kvs)"
  shows "\<exists>embedding metadata.
           load_embedding path w = Inr (embedding, metadata)
           \<and> (map_of kvs ''embedding'' = None \<longrightarrow> embedding = JArr [])
           \<and> (\<forall>v. map_of kvs ''embedding'' = Some v \<longrightarrow> embedding = v)
           \<and> (map_of kvs ''metadata'' = None \<longrightarrow> metadata = JObj [])
           \<and> (\<forall>v. map_of kvs ''metadata'' = Some v \<longrightarrow> metadata = v)"
  using assms by (simp add: load_embedding_def)

theorem load_object_lenient_witness:
  "files object_document_world ''emb.json'' = Some object_document_file
   \<and> parsed object_document_file = Some (JObj [(''embedding'', JArr [JFloat 1])])
   \<and> load_embedding ''emb.json'' object_document_world = Inr (JArr [JFloat 1], JObj [])"
  using load_object_lenient
    [of object_document_world "''emb.json''" object_document_file
        "[(''embedding'', JArr [JFloat 1])]"]
  by (simp add: object_document_world_def object_document_file_def)

text \<open>
  Claim C9, as stated, fails on a valid JSON document that is not an object: the text
  \<^verbatim>\<open>[]\<close> parses to the empty list, which has no \<^verbatim>\<open>get\<close> method, and
  \<^verbatim>\<open>load_embedding\<close> raises \<^verbatim>\<open>AttributeError\<close>.
\<close>

theorem load_array_document_counterexample:
  "files array_document_world ''doc.json''
     = Some \<lparr>content = ''[]'', parsed = Some (JArr [])\<rparr>
   \<and> load_embedding ''doc.json'' array_document_world = Inl AttributeError"
  by (simp add: array_document_world_def load_embedding_def)

section \<open>Properties of cosine similarity\<close>

text \<open>
  Claim C2. For vectors \<open>A\<close> and \<open>B\<close> of equal length, \<^verbatim>\<open>cosine_similarity(A, B)\<close> and
  \<^verbatim>\<open>cosine_similarity(B, A)\<close> both return a number, and it is the same number.
\<close>

theorem cosine_similarity_commutes:
  assumes "length A = length B"
  shows "\<exists>r. cosine_similarity A B = Inr r \<and> cosine_similarity B A = Inr r"
proof (cases "magnitude A = 0 \<or> magnitude B = 0")
  case True
  with assms show ?thesis by (auto simp: cosine_similarity_def)
next
  case False
  then have "cosine_similarity A B = Inr (dot_product A B / (magnitude A * magnitude B))"
    using assms by (simp add: cosine_similarity_quotient)
  moreover have "cosine_similarity B A = Inr (dot_product B A / (magnitude B * magnitude A))"
    using assms False by (simp add: cosine_similarity_quotient)
  ultimately show ?thesis
    by (simp add: dot_product_commute[of B A] mult.commute)
qed

theorem cosine_similarity_commutes_witness:
  "length [1, 2 :: real] = length [3, 4 :: real] \<and>
   (\<exists>r. cosine_similarity [1, 2] [3, 4] = Inr r \<and> cosine_similarity [3, 4] [1, 2] = Inr r)"
  using cosine_similarity_commutes [of "[1, 2]" "[3, 4]"] by simp

text \<open>
  Claim C3. \<^verbatim>\<open>cosine_similarity\<close> raises the dimension-mismatch \<^verbatim>\<open>ValueError\<close> exactly
  when the two vectors differ in length; on vectors of equal length it raises nothing
  and returns a number.
\<close>

theorem dimension_mismatch_iff:
  "((cosine_similarity A B = Inl (ValueError ''Embeddings must have same dimension''))
      \<longleftrightarrow> length A \<noteq> length B)
   \<and> (length A = length B \<longrightarrow> (\<exists>r. cosine_similarity A B = Inr r))"
  by (auto simp: cosine_similarity_def py_truediv_def Let_def)

theorem dimension_mismatch_iff_witness:
  "length [1, 2 :: real] \<noteq> length [3 :: real]
   \<and> cosine_similarity [1, 2] [3] = Inl (ValueError ''Embeddings must have same dimension'')
   \<and> length [1, 2 :: real] = length [3, 4 :: real]
   \<and> (\<exists>r. cosine_similarity [1, 2] [3, 4] = Inr r)"
  using dimension_mismatch_iff [of "[1, 2]" "[3]"] dimension_mismatch_iff [of "[1, 2]" "[3, 4]"]
  by simp

text \<open>
  Claim C4. For vectors of equal length, when the magnitude of either one is zero, and
  in particular when either one consists of zeros only, \<^verbatim>\<open>cosine_similarity\<close> returns
  \<open>0\<close> and raises nothing.
\<close>

theorem zero_norm_gives_zero:
  assumes "length A = length B"
    and "magnitude A = 0 \<or> magnitude B = 0 \<or> (\<forall>a\<in>set A. a = 0) \<or> (\<forall>b\<in>set B. b = 0)"
  shows "cosine_similarity A B = Inr 0"
  using assms by (auto simp: cosine_similarity_def Let_def magnitude_zero_iff)

theorem zero_norm_gives_zero_witness:
  "length [0, 0 :: real] = length [1, 2 :: real]
   \<and> magnitude [0, 0] = 0
   \<and> cosine_similarity [0, 0] [1, 2] = Inr 0"
  using zero_norm_gives_zero [of "[0, 0]" "[1, 2]"] by (simp add: magnitude_def)

section \<open>The formula in exact arithmetic\<close>

text \<open>
  The two facts of this section are about the formula over the real numbers, which is
  what \<open>cosine_similarity\<close> embeds. They say nothing about the rounded result that
  double-precision arithmetic gives: there the products can underflow to zero or
  overflow, and the quotient can exceed \<open>1\<close> in the last place.

  Over the reals, the value for vectors of equal length lies between \<open>-1\<close> and \<open>1\<close>,
  by the Cauchy-Schwarz inequality.
\<close>

lemma exact_cosine_similarity_range:
  assumes "length A = length B"
  shows "\<exists>r. cosine_similarity A B = Inr r \<and> - 1 \<le> r \<and> r \<le> 1"
proof (cases "magnitude A = 0 \<or> magnitude B = 0")
  case True
  with assms show ?thesis by (auto simp: cosine_similarity_def)
next
  case False
  with magnitude_nonneg[of A] magnitude_nonneg[of B]
  have pos: "0 < magnitude A * magnitude B" by simp
  have eq: "cosine_similarity A B = Inr (dot_product A B / (magnitude A * magnitude B))"
    using assms False by (simp add: cosine_similarity_quotient)
  have "\<bar>dot_product A B\<bar> / (magnitude A * magnitude B) \<le> 1"
    using abs_dot_le_magnitudes[OF assms] pos by (simp add: divide_le_eq_1)
  moreover have "\<bar>dot_product A B / (magnitude A * magnitude B)\<bar>
      = \<bar>dot_product A B\<bar> / (magnitude A * magnitude B)"
  proof -
    have "\<bar>magnitude A * magnitude B\<bar> = magnitude A * magnitude B"
      using pos by (rule abs_of_pos)
    then show ?thesis by (simp only: abs_divide)
  qed
  ultimately have "\<bar>dot_product A B / (magnitude A * magnitude B)\<bar> \<le> 1"
    by (simp only:)
  then have "- 1 \<le> dot_product A B / (magnitude A * magnitude B)
      \<and> dot_product A B / (magnitude A * magnitude B) \<le> 1"
    by linarith
  then show ?thesis using eq by simp
qed

text \<open>Over the reals, a vector of non-zero magnitude has the value \<open>1\<close> with itself.\<close>

lemma exact_cosine_similarity_self:
  assumes "magnitude A \<noteq> 0"
  shows "cosine_similarity A A = Inr 1"
proof -
  have "dot_product A A = magnitude A * magnitude A"
    by (simp only: dot_product_self magnitude_square)
  then show ?thesis
    using assms by (simp add: cosine_similarity_quotient)
qed

section \<open>Properties of the client and of the pipeline\<close>

text \<open>
  Claim C7, as amended. The credential is the value of the environment variable
  \<^verbatim>\<open>GEMINI_API_KEY\<close>. When that variable is absent, every call of
  \<^verbatim>\<open>generate_embedding\<close> raises the configuration error and leaves the state as it
  was: no request has been issued.
\<close>

theorem generate_requires_gemini_key:
  assumes "environ ''GEMINI_API_KEY'' = None"
  shows "generate_embedding ext (module_config environ) txt task_type w
         = (Inl (ValueError ''GEMINI_API_KEY environment variable not set''), w)"
  using assms by (simp add: generate_embedding_def module_config_def)

theorem generate_requires_gemini_key_witness:
  "environ_api_key_only ''GEMINI_API_KEY'' = None \<and>
   generate_embedding stub_externals (module_config environ_api_key_only)
       ''hello world'' ''RETRIEVAL_DOCUMENT'' empty_world
     = (Inl (ValueError ''GEMINI_API_KEY environment variable not set''), empty_world)"
  using generate_requires_gemini_key
    [of environ_api_key_only stub_externals "''hello world''" "''RETRIEVAL_DOCUMENT''" empty_world]
  by (simp add: environ_api_key_only_def)

text \<open>
  Claim C7, as stated, fails: in an environment where \<^verbatim>\<open>API_KEY\<close> is absent and
  \<^verbatim>\<open>GEMINI_API_KEY\<close> is set, \<^verbatim>\<open>generate_embedding\<close> raises no configuration error; it
  issues one request and returns the provider's vector.
\<close>

theorem api_key_variable_counterexample:
  "environ_gemini_key_only ''API_KEY'' = None \<and>
   fst (generate_embedding stub_externals (module_config environ_gemini_key_only)
          ''hello world'' ''RETRIEVAL_DOCUMENT'' empty_world)
     = Inr (JArr [JFloat (1 / 10), JFloat (2 / 10), JFloat (3 / 10)]) \<and>
   length (requests (snd (generate_embedding stub_externals
          (module_config environ_gemini_key_only)
          ''hello world'' ''RETRIEVAL_DOCUMENT'' empty_world))) = 1"
  by (simp add: environ_gemini_key_only_def generate_embedding_def module_config_def
      stub_externals_def empty_world_def response_values_def Let_def)

text \<open>
  Claim C8. When no file exists at the input path, \<^verbatim>\<open>embed_file\<close> raises
  \<^verbatim>\<open>FileNotFoundError\<close> and leaves the state as it was: nothing has been printed,
  \<^verbatim>\<open>generate_embedding\<close> has not been called and no request has been issued.
\<close>

theorem embed_file_missing_input:
  assumes "files w input_path = None"
  shows "embed_file ext cfg input_path output_path task_type w
         = (Inl (FileNotFoundError (''Input file not found: '' @ input_path)), w)"
  using assms by (simp add: embed_file_def)

theorem embed_file_missing_input_witness:
  "files empty_world ''in.txt'' = None \<and>
   embed_file stub_externals (module_config environ_gemini_key_only)
       ''in.txt'' ''out.json'' ''RETRIEVAL_DOCUMENT'' empty_world
     = (Inl (FileNotFoundError ''Input file not found: in.txt''), empty_world)"
  using embed_file_missing_input
    [of empty_world "''in.txt''" stub_externals "module_config environ_gemini_key_only"
        "''out.json''" "''RETRIEVAL_DOCUMENT''"]
  by (simp add: empty_world_def)

end
